theory Spec2Isabelle
  imports Main "HOL-Library.Sublist"
begin

section \<open>Go values: errors, panics and process exit\<close>

text \<open>
  A Go \<^verbatim>\<open>error\<close> is a value carrying a message; a function returning
  \<^verbatim>\<open>(T, error)\<close> is modelled by a pair whose second component is
  \<open>None\<close> for \<^verbatim>\<open>nil\<close>.  A call either returns, panics (a slice or
  index expression out of range, a method call on a nil interface) or ends the
  process (\<^verbatim>\<open>log.Fatal\<close>, which calls \<^verbatim>\<open>os.Exit(1)\<close>
  and so runs no deferred function).
\<close>

datatype error = Error string

datatype 'a go = Return 'a | Panic | Exit

section \<open>String helpers of the Go standard library\<close>

text \<open>\<^verbatim>\<open>strings.HasPrefix(s, prefix)\<close>.\<close>

definition HasPrefix :: "string \<Rightarrow> string \<Rightarrow> bool" where
  "HasPrefix s p = (length p \<le> length s \<and> take (length p) s = p)"

text \<open>\<^verbatim>\<open>strings.Split(s, sep)\<close> for a separator of one byte: a string with
  \<open>n\<close> separators gives \<open>n + 1\<close> pieces, the empty string gives one empty piece.
  (The recursive call never returns the empty list; that case only makes the
  definition total.)\<close>

fun Split :: "string \<Rightarrow> char \<Rightarrow> string list" where
  "Split [] sep = [[]]"
| "Split (c # cs) sep =
     (if c = sep then [] # Split cs sep
      else (case Split cs sep of [] \<Rightarrow> [[c]] | p # ps \<Rightarrow> (c # p) # ps))"

text \<open>\<^verbatim>\<open>strings.Join(elems, sep)\<close>.\<close>

fun Join :: "string list \<Rightarrow> string \<Rightarrow> string" where
  "Join [] sep = []"
| "Join [x] sep = x"
| "Join (x # y # ys) sep = x @ sep @ Join (y # ys) sep"

text \<open>
  \<^verbatim>\<open>strings.TrimSpace\<close> is a parameter of the functions that call it
  (it also strips Unicode white space, which needs the tables of the standard
  library).  \<open>TrimSpaceASCII\<close> is what it computes on strings whose white
  space is ASCII: tab, line feed, vertical tab, form feed, carriage return and
  space are cut from both ends.
\<close>

definition isSpaceASCII :: "char \<Rightarrow> bool" where
  "isSpaceASCII c = (c = CHR 0x09 \<or> c = CHR 0x0A \<or> c = CHR 0x0B \<or> c = CHR 0x0C
      \<or> c = CHR 0x0D \<or> c = CHR 0x20)"

definition TrimSpaceASCII :: "string \<Rightarrow> string" where
  "TrimSpaceASCII s = rev (dropWhile isSpaceASCII (rev (dropWhile isSpaceASCII s)))"

text \<open>
  \<^verbatim>\<open>fmt.Sprintf("%q", s)\<close>: the string in double quotes, a double quote
  or a backslash of its own escaped by a backslash, the other printable ASCII
  bytes (0x20 to 0x7E) as they are.  Every other rune (a control character, DEL,
  anything that starts with a byte from 0x80 on) is rendered by the standard
  library from its Unicode tables: \<open>rune\<close> stands for that, giving the
  width in bytes of the rune at the head of the input and its rendering.
\<close>

function appendQuoted :: "(string \<Rightarrow> nat \<times> string) \<Rightarrow> string \<Rightarrow> string" where
  "appendQuoted rune [] = []"
| "appendQuoted rune (c # cs) =
     (if c = CHR 0x22 \<or> c = CHR 0x5C then CHR 0x5C # c # appendQuoted rune cs
      else if 0x20 \<le> (of_char c :: nat) \<and> (of_char c :: nat) \<le> 0x7E
        then c # appendQuoted rune cs
      else snd (rune (c # cs)) @ appendQuoted rune (drop (fst (rune (c # cs)) - 1) cs))"
  by pat_completeness auto
termination
  by (relation "measure (\<lambda>(rune, s). length s)") auto

definition Sprintf_q :: "(string \<Rightarrow> nat \<times> string) \<Rightarrow> string \<Rightarrow> string" where
  "Sprintf_q rune s = CHR 0x22 # appendQuoted rune s @ [CHR 0x22]"

text \<open>The bytes that \<^verbatim>\<open>%q\<close> copies as they are.\<close>

definition plainChar :: "char \<Rightarrow> bool" where
  "plainChar c = (0x20 \<le> (of_char c :: nat) \<and> (of_char c :: nat) \<le> 0x7E \<and> c \<noteq> CHR 0x22 \<and> c \<noteq> CHR 0x5C)"

section \<open>Contact normalisation (client.go)\<close>

text \<open>
  \<^verbatim>\<open>prependContacts\<close> walks the indices of its argument, overwrites in
  place every entry that lacks the \<^verbatim>\<open>mailto:\<close> prefix, and copies the
  entry to the fresh slice \<^verbatim>\<open>contacts\<close>.  The state of the loop is the
  pair of the caller's slice and the new one; the function returns both, the
  second being the Go return value.
\<close>

definition prependStep ::
  "(string \<Rightarrow> string) \<Rightarrow> nat \<Rightarrow> string list \<times> string list \<Rightarrow> string list \<times> string list" where
  "prependStep TrimSpace i st =
     (let c = fst st; contacts = snd st;
          c' = (if \<not> HasPrefix (c ! i) ''mailto:''
                then c[i := ''mailto:'' @ TrimSpace (c ! i)] else c)
      in (c', contacts[i := c' ! i]))"

definition prependContacts ::
  "(string \<Rightarrow> string) \<Rightarrow> string list \<Rightarrow> string list \<times> string list" where
  "prependContacts TrimSpace c =
     fold (prependStep TrimSpace) [0..<length c] (c, replicate (length c) [])"

text \<open>What one round of the loop leaves in an entry.\<close>

definition normContact :: "(string \<Rightarrow> string) \<Rightarrow> string \<Rightarrow> string" where
  "normContact TrimSpace s = (if HasPrefix s ''mailto:'' then s else ''mailto:'' @ TrimSpace s)"

section \<open>The certificate store (secrets.go)\<close>

text \<open>\<^verbatim>\<open>ASMCertStore.Retrieve\<close> ignores both the store and the domain.\<close>

definition ASMCertStore_Retrieve :: "'asm \<Rightarrow> string \<Rightarrow> string \<times> string \<times> error option" where
  "ASMCertStore_Retrieve c domain = (''i_am'', ''fake'', None)"

section \<open>The Route53 DNS modifier (route53.go)\<close>

text \<open>
  The request value of the AWS SDK, with the fields the code fills in.
\<close>

record ResourceRecord =
  Value :: string

record ResourceRecordSet =
  Name :: string
  ResourceRecords :: "ResourceRecord list"
  TTL :: int
  RRType :: string

record Change =
  Action :: string
  ResourceRecordSet :: ResourceRecordSet

record ChangeBatch =
  Changes :: "Change list"
  Comment :: string

record ChangeResourceRecordSetsInput =
  ChangeBatch :: ChangeBatch
  HostedZoneId :: string

text \<open>
  The two calls of the AWS SDK client that \<^verbatim>\<open>Route53\<close> wraps:
  \<open>ListHostedZonesByName\<close> answers, for a DNS name and
  \<^verbatim>\<open>MaxItems = "1"\<close>, with an error or with the ids of the hosted
  zones of its output; \<open>ChangeResourceRecordSets\<close> with an error or
  \<^verbatim>\<open>nil\<close>.
\<close>

record Route53 =
  ListHostedZonesByName :: "string \<Rightarrow> error + string list"
  ChangeResourceRecordSets :: "ChangeResourceRecordSetsInput \<Rightarrow> error option"

definition splitHostname :: "string \<Rightarrow> string \<times> string \<times> error option" where
  "splitHostname hostname =
     (let s = Split hostname CHR ''.'';
          h = filter (\<lambda>t. t \<noteq> [] \<and> t \<noteq> ''*'') s
      in if length h < 2
         then ([], [], Some (Error (hostname @ '' is basically a great big TLD'')))
         else (Join (take (length h - 2) h) ''.'', Join (drop (length h - 2) h) ''.'', None))"

definition findHostedZoneID :: "Route53 \<Rightarrow> string \<Rightarrow> string \<times> error option" where
  "findHostedZoneID r53 hostname =
     (case splitHostname hostname of
        (_, domain, Some err) \<Rightarrow> ([], Some err)
      | (_, domain, None) \<Rightarrow>
          (case ListHostedZonesByName r53 domain of
             Inl err \<Rightarrow> ([], Some err)
           | Inr hostedZones \<Rightarrow>
               if length hostedZones \<noteq> 1
               then ([], Some (Error (''Failed to find HostedZoneID for '' @ domain)))
               else (hostedZones ! 0, None)))"

text \<open>
  \<^verbatim>\<open>domain[:2]\<close> panics on a string shorter than two bytes.  The error
  result is always \<^verbatim>\<open>nil\<close>.
\<close>

definition createChangeRecordSetInput ::
  "(string \<Rightarrow> nat \<times> string) \<Rightarrow> string \<Rightarrow> string \<Rightarrow> string \<Rightarrow> string \<Rightarrow>
     (ChangeResourceRecordSetsInput \<times> error option) go" where
  "createChangeRecordSetInput rune hostedZoneID domain token action =
     (if length domain < 2 then Panic
      else
        let domain' = (if take 2 domain = ''*.'' then drop 2 domain else domain)
        in Return
          (\<lparr>ChangeBatch = \<lparr>Changes =
               [\<lparr>Action = action,
                 ResourceRecordSet =
                   \<lparr>Name = ''_acme-challenge.'' @ domain',
                    ResourceRecords = [\<lparr>Value = Sprintf_q rune token\<rparr>],
                    TTL = 20,
                    RRType = ''TXT''\<rparr>\<rparr>],
               Comment = ''Text record for letsencrypt''\<rparr>,
             HostedZoneId = hostedZoneID\<rparr>, None))"

text \<open>
  The result of \<^verbatim>\<open>AddTextRecord\<close> and of \<^verbatim>\<open>RemoveTextRecord\<close>
  is the outcome of the call together with the inputs it handed to
  \<open>ChangeResourceRecordSets\<close>, in order.
\<close>

definition Route53_AddTextRecord ::
  "(string \<Rightarrow> nat \<times> string) \<Rightarrow> Route53 \<Rightarrow> string \<Rightarrow> string \<Rightarrow>
     error option go \<times> ChangeResourceRecordSetsInput list" where
  "Route53_AddTextRecord rune c domain token =
     (case findHostedZoneID c domain of
        (_, Some err) \<Rightarrow> (Return (Some err), [])
      | (hostedZoneID, None) \<Rightarrow>
          (case createChangeRecordSetInput rune hostedZoneID domain token ''UPSERT'' of
             Panic \<Rightarrow> (Panic, [])
           | Exit \<Rightarrow> (Exit, [])
           | Return (input, Some err) \<Rightarrow> (Return (Some err), [])
           | Return (input, None) \<Rightarrow>
               (case ChangeResourceRecordSets c input of
                  Some err \<Rightarrow> (Return (Some err), [input])
                | None \<Rightarrow> (Return None, [input]))))"

definition Route53_RemoveTextRecord ::
  "(string \<Rightarrow> nat \<times> string) \<Rightarrow> Route53 \<Rightarrow> string \<Rightarrow> string \<Rightarrow>
     error option go \<times> ChangeResourceRecordSetsInput list" where
  "Route53_RemoveTextRecord rune c domain token =
     (case findHostedZoneID c domain of
        (_, Some err) \<Rightarrow> (Return (Some err), [])
      | (hostedZoneID, None) \<Rightarrow>
          (case createChangeRecordSetInput rune hostedZoneID domain token ''DELETE'' of
             Panic \<Rightarrow> (Panic, [])
           | Exit \<Rightarrow> (Exit, [])
           | Return (input, Some err) \<Rightarrow> (Return (Some err), [])
           | Return (input, None) \<Rightarrow>
               (case ChangeResourceRecordSets c input of
                  Some err \<Rightarrow> (Return (Some err), [input])
                | None \<Rightarrow> (Return None, [input]))))"

section \<open>The ACME client (client.go, account.go, logger.go)\<close>

text \<open>
  \<^verbatim>\<open>base64.RawURLEncoding.EncodeToString\<close>: the URL alphabet, no
  padding.  Byte strings and strings are both lists of bytes.
\<close>

definition encodeURL :: string where
  "encodeURL = ''ABCDEFGHIJKLMNOPQRSTUVWXYZabcdefghijklmnopqrstuvwxyz0123456789-_''"

fun encode64 :: "nat list \<Rightarrow> string" where
  "encode64 (a # b # c # rest) =
     [encodeURL ! (a div 4), encodeURL ! ((a mod 4) * 16 + b div 16),
      encodeURL ! ((b mod 16) * 4 + c div 64), encodeURL ! (c mod 64)] @ encode64 rest"
| "encode64 [a, b] =
     [encodeURL ! (a div 4), encodeURL ! ((a mod 4) * 16 + b div 16),
      encodeURL ! ((b mod 16) * 4)]"
| "encode64 [a] = [encodeURL ! (a div 4), encodeURL ! ((a mod 4) * 16)]"
| "encode64 [] = []"

definition EncodeToString :: "string \<Rightarrow> string" where
  "EncodeToString src = encode64 (map of_char src)"

text \<open>
  Keys: an ECDSA private key is its curve name, the public point and the
  secret scalar; an RSA private key its modulus and the two exponents.  A
  \<^verbatim>\<open>*ecdsa.PrivateKey\<close> may be \<^verbatim>\<open>nil\<close>.
\<close>

datatype ecdsaKey = EcdsaKey string int int int

datatype rsaKey = RsaKey int int int

datatype Logger = StdoutLogger | StderrLogger

text \<open>The interfaces the client is given.\<close>

record DNSModifier =
  AddTextRecord :: "string \<Rightarrow> string \<Rightarrow> error option"
  RemoveTextRecord :: "string \<Rightarrow> string \<Rightarrow> error option"

record CertStoreRetriever =
  Store :: "string \<Rightarrow> string \<Rightarrow> string \<Rightarrow> error option"
  Retrieve :: "string \<Rightarrow> string \<times> string \<times> error option"

text \<open>
  Modelled from the spec: the type \<^verbatim>\<open>Directory\<close> is declared in a file
  that is not among the sources.  It maps the operation names
  \<^verbatim>\<open>newNonce\<close>, \<^verbatim>\<open>newAccount\<close>, \<^verbatim>\<open>newOrder\<close>,
  \<^verbatim>\<open>revokeCert\<close> and \<^verbatim>\<open>keyChange\<close> to URLs.
\<close>

record Directory =
  NewNonce :: string
  NewAccount :: string
  NewOrder :: string
  RevokeCert :: string
  KeyChange :: string

text \<open>
  The options and the client.  The fields \<^verbatim>\<open>CertKey\<close>,
  \<^verbatim>\<open>ContactEmails\<close> and \<^verbatim>\<open>Logger\<close> of the options carry the
  prefix \<open>opt\<close>, since the client has fields of the same names; the HTTP
  client of the options is never read and is left out.
\<close>

record ClientOpts =
  AccountKey :: "ecdsaKey option"
  optCertKey :: "rsaKey option"
  optContactEmails :: "string list"
  optLogger :: "Logger option"

record Client =
  Nonce :: string
  KID :: string
  Key :: "ecdsaKey option"
  Directory :: Directory
  DNS :: "DNSModifier option"
  CertsManager :: "CertStoreRetriever option"
  OrderURL :: string
  ContactEmails :: "string list"
  Finalize :: string
  CertKey :: "rsaKey option"
  Logger :: "Logger option"

subsection \<open>Key authorisation\<close>

text \<open>
  \<^verbatim>\<open>JWKThumbprint\<close> hands the key to the JOSE library:
  \<open>Thumbprint\<close> stands for
  \<^verbatim>\<open>jose.JSONWebKey{Key: key}.Thumbprint(crypto.SHA256)\<close>, and
  \<open>sha256\<close> below for the digest of \<^verbatim>\<open>crypto/sha256\<close>.  The calls of
  \<^verbatim>\<open>c.log\<close> write to the optional logger; they change neither the
  client nor a result and are left out.
\<close>

definition JWKThumbprint ::
  "(ecdsaKey option \<Rightarrow> string \<times> error option) \<Rightarrow> ecdsaKey option \<Rightarrow> string \<times> error option" where
  "JWKThumbprint Thumbprint key = Thumbprint key"

definition acmeAuthString ::
  "(ecdsaKey option \<Rightarrow> string \<times> error option) \<Rightarrow> Client \<Rightarrow> string \<Rightarrow> string \<times> error option" where
  "acmeAuthString Thumbprint c token =
     (case JWKThumbprint Thumbprint (Key c) of
        (thumb, Some err) \<Rightarrow> (thumb, Some err)
      | (thumb, None) \<Rightarrow> (token @ ''.'' @ EncodeToString thumb, None))"

definition AcmeAuthHash ::
  "(string \<Rightarrow> string) \<Rightarrow> (ecdsaKey option \<Rightarrow> string \<times> error option) \<Rightarrow>
     Client \<Rightarrow> string \<Rightarrow> string \<times> error option" where
  "AcmeAuthHash sha256 Thumbprint c token =
     (case acmeAuthString Thumbprint c token of
        (authString, Some err) \<Rightarrow> (authString, Some err)
      | (authString, None) \<Rightarrow> (EncodeToString (sha256 authString), None))"

subsection \<open>Creating a client\<close>

text \<open>
  \<^verbatim>\<open>queryDirectory\<close>: \<open>Get\<close> stands for \<^verbatim>\<open>http.Get\<close> followed by
  \<^verbatim>\<open>ioutil.ReadAll\<close> of the body (an error of either, or the bytes read),
  \<open>Parse\<close> for the directory parser, which is not among the sources.
\<close>

definition zeroDirectory :: Directory where
  "zeroDirectory = \<lparr>NewNonce = [], NewAccount = [], NewOrder = [], RevokeCert = [], KeyChange = []\<rparr>"

definition queryDirectory ::
  "(string \<Rightarrow> error + string) \<Rightarrow> (string \<Rightarrow> Directory \<times> error option) \<Rightarrow>
     string \<Rightarrow> Directory \<times> error option" where
  "queryDirectory Get Parse url =
     (case Get url of
        Inl err \<Rightarrow> (zeroDirectory, Some err)
      | Inr dirJSON \<Rightarrow> Parse dirJSON)"

text \<open>
  \<^verbatim>\<open>NewClient\<close>.  \<open>GenerateKey\<close> is the outcome of
  \<^verbatim>\<open>ecdsa.GenerateKey(elliptic.P256(), rand.Reader)\<close>; the generated key is
  assigned to the function's own copy of the options, \<open>opts'\<close>, which nothing
  reads afterwards.
\<close>

definition NewClient ::
  "(string \<Rightarrow> string) \<Rightarrow> (string \<Rightarrow> error + string) \<Rightarrow> (string \<Rightarrow> Directory \<times> error option) \<Rightarrow>
     (error + ecdsaKey) \<Rightarrow>
     string \<Rightarrow> CertStoreRetriever option \<Rightarrow> DNSModifier option \<Rightarrow> ClientOpts \<Rightarrow>
     (Client \<times> error option) go" where
  "NewClient TrimSpace Get Parse GenerateKey dirURL csr dm opts =
     (let contacts = snd (prependContacts TrimSpace (optContactEmails opts));
          c = \<lparr>Nonce = [], KID = [], Key = AccountKey opts, Directory = zeroDirectory,
               DNS = None, CertsManager = None, OrderURL = [], ContactEmails = contacts,
               Finalize = [], CertKey = optCertKey opts, Logger = None\<rparr>
      in case queryDirectory Get Parse dirURL of
           (directory, Some err) \<Rightarrow> Return (c, Some err)
         | (directory, None) \<Rightarrow>
             (let c1 = c\<lparr>Directory := directory\<rparr> in
              case (if AccountKey opts = None
                    then (case GenerateKey of
                            Inl err \<Rightarrow> Exit
                          | Inr key \<Rightarrow> Return (opts\<lparr>AccountKey := Some key\<rparr>))
                    else Return opts) of
                Exit \<Rightarrow> Exit
              | Panic \<Rightarrow> Panic
              | Return opts' \<Rightarrow>
                  (let c2 = (if optLogger opts' \<noteq> None then c1\<lparr>Logger := optLogger opts'\<rparr> else c1);
                       c3 = c2\<lparr>DNS := dm\<rparr>;
                       c4 = c3\<lparr>CertsManager := csr\<rparr>
                   in Return (c4, None))))"

subsection \<open>Signed requests\<close>

text \<open>
  The HTTP layer.  A request is what \<^verbatim>\<open>makeRequest\<close> builds; a response
  has a status code, a header (canonical key to values, none for an absent
  key) and the outcome of \<^verbatim>\<open>ioutil.ReadAll\<close> on its body: the bytes read
  and the error that stopped the reading, if any.  \<open>urlError\<close> is the error
  of \<^verbatim>\<open>http.NewRequest\<close> on a URL it cannot parse, \<open>Do\<close> is
  \<^verbatim>\<open>http.DefaultClient.Do\<close>.
\<close>

record 'b request =
  reqMethod :: string
  reqURL :: string
  reqBody :: 'b
  reqContentType :: string

record response =
  StatusCode :: nat
  Header :: "string \<Rightarrow> string list"
  Body :: "string \<times> error option"

record 'b transport =
  urlError :: "string \<Rightarrow> error option"
  Do :: "'b request \<Rightarrow> error + response"

text \<open>\<^verbatim>\<open>Header.Get\<close>: the first value of the key, the empty string without one.\<close>

definition Header_Get :: "(string \<Rightarrow> string list) \<Rightarrow> string \<Rightarrow> string" where
  "Header_Get h k = (case h k of [] \<Rightarrow> [] | v # _ \<Rightarrow> v)"

text \<open>
  \<^verbatim>\<open>makeRequest\<close>.  \<open>JWSEncodeJSON\<close> is the signer, a method of the
  client that is not among the sources; it is a parameter here.  As a method
  it has the client in its hands, so it gives back, with the token and the
  error, the client as it leaves it.  The context argument is handed on and
  plays no part.  The result is the pair the Go function returns, the client
  afterwards, and the requests handed to \<open>Do\<close>.
\<close>

definition makeRequest ::
  "(Client \<Rightarrow> 'c \<Rightarrow> string \<Rightarrow> bool \<Rightarrow> ('b \<times> error option) \<times> Client) \<Rightarrow> 'b transport \<Rightarrow>
     Client \<Rightarrow> 'c \<Rightarrow> string \<Rightarrow> bool \<Rightarrow> (string \<times> error option) \<times> Client \<times> 'b request list" where
  "makeRequest JWSEncodeJSON tr c claimset url postAsGet =
     (case JWSEncodeJSON c claimset url postAsGet of
        ((token, Some err), c0) \<Rightarrow> (([], Some err), c0, [])
      | ((token, None), c0) \<Rightarrow>
          (case urlError tr url of
             Some err \<Rightarrow> (([], Some err), c0, [])
           | None \<Rightarrow>
               (let req = \<lparr>reqMethod = ''POST'', reqURL = url, reqBody = token,
                           reqContentType = ''application/jose+json''\<rparr>
                in case Do tr req of
                     Inl err \<Rightarrow> (([], Some err), c0, [req])
                   | Inr res \<Rightarrow>
                       (case Body res of
                          (b, Some err) \<Rightarrow> ((b, Some err), c0, [req])
                        | (b, None) \<Rightarrow>
                            (let c1 = c0\<lparr>Nonce := Header_Get (Header res) ''Replay-Nonce''\<rparr>;
                                 c2 = (if KID c1 = []
                                       then c1\<lparr>KID := Header_Get (Header res) ''Location''\<rparr>
                                       else c1)
                             in ((b, None), c2, [req]))))))"

record NewAccount =
  TermsOfServiceAgreed :: bool
  Contact :: "string list"

definition newAccount ::
  "(Client \<Rightarrow> NewAccount \<Rightarrow> string \<Rightarrow> bool \<Rightarrow> ('b \<times> error option) \<times> Client) \<Rightarrow> 'b transport \<Rightarrow>
     Client \<Rightarrow> string list \<Rightarrow> error option \<times> Client \<times> 'b request list" where
  "newAccount JWSEncodeJSON tr c contactEmails =
     (let newAcct = \<lparr>TermsOfServiceAgreed = True, Contact = contactEmails\<rparr>
      in case makeRequest JWSEncodeJSON tr c newAcct (NewAccount (Directory c)) False of
           ((res, err), c', sent) \<Rightarrow> (err, c', sent))"






text \<open>
  Modelled from the spec: \<^verbatim>\<open>Client.JWSEncodeJSON\<close> is not among the
  sources.  The spec's request signer produces, for a payload, a target URL
  and the client, a signed envelope: a protected header with the signing
  algorithm, the consumed nonce, the target URL and either the account's
  public key (no key id yet) or its key id; the base64url payload (the empty
  string for POST-as-GET); and a signature over
  \<^verbatim>\<open>protected || "." || payload\<close> under the account key, which fails on
  malformed key material only.  It consumes the nonce of the nonce tracker
  together with the construction of the envelope, so that no two envelopes
  are built from one nonce: the client is left without a nonce (the empty
  string), and without a nonce to take the signer fails with
  \<^verbatim>\<open>NoNonceError\<close>.  \<open>marshal\<close> and \<open>marshalHeader\<close> serialise the
  payload and the header, \<open>sign\<close> signs.
\<close>

fun Public :: "ecdsaKey \<Rightarrow> string \<times> int \<times> int" where
  "Public (EcdsaKey curve x y d) = (curve, x, y)"

datatype keyRef = JWK "(string \<times> int \<times> int) option" | KeyID string

record protected =
  hdrAlg :: string
  hdrNonce :: string
  hdrURL :: string
  hdrKey :: keyRef

record envelope =
  jwsProtected :: protected
  jwsPayload :: string
  jwsSignature :: string

definition zeroEnvelope :: envelope where
  "zeroEnvelope = \<lparr>jwsProtected = \<lparr>hdrAlg = [], hdrNonce = [], hdrURL = [], hdrKey = KeyID []\<rparr>,
     jwsPayload = [], jwsSignature = []\<rparr>"

definition JWSEncodeJSON ::
  "('c \<Rightarrow> string) \<Rightarrow> (protected \<Rightarrow> string) \<Rightarrow> (ecdsaKey option \<Rightarrow> string \<Rightarrow> string \<times> error option) \<Rightarrow>
     Client \<Rightarrow> 'c \<Rightarrow> string \<Rightarrow> bool \<Rightarrow> (envelope \<times> error option) \<times> Client" where
  "JWSEncodeJSON marshal marshalHeader sign c claimset target postAsGet =
     (if Nonce c = [] then ((zeroEnvelope, Some (Error ''NoNonceError'')), c)
      else
        let phead = \<lparr>hdrAlg = ''ES256'', hdrNonce = Nonce c, hdrURL = target,
                      hdrKey = (if KID c = [] then JWK (map_option Public (Key c))
                                else KeyID (KID c))\<rparr>;
            pl = (if postAsGet then [] else EncodeToString (marshal claimset))
        in case sign (Key c) (EncodeToString (marshalHeader phead) @ ''.'' @ pl) of
             (sig, Some err) \<Rightarrow> ((zeroEnvelope, Some err), c)
           | (sig, None) \<Rightarrow>
               ((\<lparr>jwsProtected = phead, jwsPayload = pl, jwsSignature = sig\<rparr>, None),
                c\<lparr>Nonce := []\<rparr>))"


subsection \<open>Fetching a certificate\<close>

text \<open>
  Modelled from the spec: the response types of \<^verbatim>\<open>CertApply\<close> and
  \<^verbatim>\<open>FetchChallenges\<close> are declared in files that are not among the
  sources.  An order lists its authorization URLs; an authorization offers
  challenges, each a type, a token, a URL and a status.
\<close>

record Challenge =
  Type :: string
  Token :: string
  URL :: string
  Status :: string

record ChallengeResponse =
  Challenges :: "Challenge list"

record CertApplyResponse =
  Authorizations :: "string list"

text \<open>
  The methods of the client that \<^verbatim>\<open>FetchOrRenewCert\<close> calls and that are
  not among the sources are parameters: each takes the client and its
  arguments and gives its results and the client afterwards.  With them come
  the signer and the transport of \<^verbatim>\<open>newAccount\<close>, the digest and the
  thumbprint.
\<close>

record 'b env =
  GetNonce :: "string \<Rightarrow> string \<times> error option"
  envJWSEncodeJSON :: "Client \<Rightarrow> NewAccount \<Rightarrow> string \<Rightarrow> bool \<Rightarrow> ('b \<times> error option) \<times> Client"
  envTransport :: "'b transport"
  CertApply :: "Client \<Rightarrow> string list \<Rightarrow> (CertApplyResponse \<times> error option) \<times> Client"
  FetchChallenges :: "Client \<Rightarrow> string \<Rightarrow> (ChallengeResponse \<times> error option) \<times> Client"
  ChallengeReady :: "Client \<Rightarrow> string \<Rightarrow> error option \<times> Client"
  PollForStatus :: "Client \<Rightarrow> string \<Rightarrow> error option \<times> Client"
  sha256 :: "string \<Rightarrow> string"
  Thumbprint :: "ecdsaKey option \<Rightarrow> string \<times> error option"

text \<open>The calls made to the DNS collaborator, each with its arguments and result.\<close>

datatype event =
  AddTextRecordCall string string "error option"
| RemoveTextRecordCall string string "error option"

text \<open>
  The loop over the offered challenges: the first of type
  \<^verbatim>\<open>dns-01\<close> replaces the zero value the variable starts with.
\<close>

fun selectChallenge :: "Challenge \<Rightarrow> Challenge list \<Rightarrow> Challenge" where
  "selectChallenge challenge [] = challenge"
| "selectChallenge challenge (c # cs) =
     (if Type c = ''dns-01'' then c else selectChallenge challenge cs)"

definition zeroChallenge :: Challenge where
  "zeroChallenge = \<lparr>Type = [], Token = [], URL = [], Status = []\<rparr>"

text \<open>
  The deferred function: it runs when the function returns, calls
  \<^verbatim>\<open>RemoveTextRecord\<close> on the DNS collaborator the client holds at that
  moment, and ends the process on an error.  Its assignment to \<^verbatim>\<open>err\<close>
  does not reach the value already returned.
\<close>

definition removeDeferred ::
  "Client \<Rightarrow> string \<Rightarrow> string \<Rightarrow> error option \<Rightarrow> error option go \<times> event list" where
  "removeDeferred c domain authHash result =
     (case DNS c of
        None \<Rightarrow> (Panic, [])
      | Some dns \<Rightarrow>
          (case RemoveTextRecord dns domain authHash of
             Some err \<Rightarrow> (Exit, [RemoveTextRecordCall domain authHash (Some err)])
           | None \<Rightarrow> (Return result, [RemoveTextRecordCall domain authHash None])))"

text \<open>
  \<^verbatim>\<open>FetchOrRenewCert\<close>: the outcome, the client afterwards and the calls
  made to the DNS collaborator.  The error of \<^verbatim>\<open>FetchChallenges\<close> is
  overwritten before it is read.  The wait of one minute is not modelled.
\<close>

definition FetchOrRenewCert ::
  "'b env \<Rightarrow> Client \<Rightarrow> string \<Rightarrow> error option go \<times> Client \<times> event list" where
  "FetchOrRenewCert env c domain =
     (if domain = [] then (Return (Some (Error ''no domain passed in'')), c, [])
      else case GetNonce env (NewNonce (Directory c)) of
        (nonce, Some err) \<Rightarrow> (Return (Some err), c, [])
      | (nonce, None) \<Rightarrow>
      (case newAccount (envJWSEncodeJSON env) (envTransport env) (c\<lparr>Nonce := nonce\<rparr>)
              (ContactEmails (c\<lparr>Nonce := nonce\<rparr>)) of
        (Some err, c1, _) \<Rightarrow> (Return (Some err), c1, [])
      | (None, c1, _) \<Rightarrow>
      (case CertApply env c1 [domain] of
        ((certApply, Some err), c2) \<Rightarrow> (Return (Some err), c2, [])
      | ((certApply, None), c2) \<Rightarrow>
      (case Authorizations certApply of
        [] \<Rightarrow> (Panic, c2, [])
      | authorization # _ \<Rightarrow>
      (case FetchChallenges env c2 authorization of
        ((challengeResponse, _), c3) \<Rightarrow>
      (let challenge = selectChallenge zeroChallenge (Challenges challengeResponse) in
       case AcmeAuthHash (sha256 env) (Thumbprint env) c3 (Token challenge) of
        (_, Some err) \<Rightarrow> (Exit, c3, [])
      | (authHash, None) \<Rightarrow>
      (case DNS c3 of
        None \<Rightarrow> (Panic, c3, [])
      | Some dns \<Rightarrow>
      (case AddTextRecord dns domain authHash of
        Some err \<Rightarrow> (Exit, c3, [AddTextRecordCall domain authHash (Some err)])
      | None \<Rightarrow>
      (case ChallengeReady env c3 (URL challenge) of
        (Some err, c4) \<Rightarrow>
          (case removeDeferred c4 domain authHash (Some err) of
             (r, evs) \<Rightarrow> (r, c4, AddTextRecordCall domain authHash None # evs))
      | (None, c4) \<Rightarrow>
      (case PollForStatus env c4 domain of
        (Some err, c5) \<Rightarrow>
          (case removeDeferred c5 domain authHash (Some err) of
             (r, evs) \<Rightarrow> (r, c5, AddTextRecordCall domain authHash None # evs))
      | (None, c5) \<Rightarrow>
          (case removeDeferred c5 domain authHash None of
             (r, evs) \<Rightarrow> (r, c5, AddTextRecordCall domain authHash None # evs))))))))))))"

section \<open>Sample values\<close>

text \<open>Concrete collaborators and a concrete client, for the evaluations below.\<close>

definition sampleRoute53 :: Route53 where
  "sampleRoute53 = \<lparr>ListHostedZonesByName = (\<lambda>name. Inr [''Z1'']),
     ChangeResourceRecordSets = (\<lambda>input. None)\<rparr>"

definition sampleDNS :: DNSModifier where
  "sampleDNS = \<lparr>AddTextRecord = (\<lambda>domain token. None), RemoveTextRecord = (\<lambda>domain token. None)\<rparr>"

definition sampleDirectory :: Directory where
  "sampleDirectory = \<lparr>NewNonce = ''https://acme.test/nonce'', NewAccount = ''https://acme.test/acct'',
     NewOrder = ''https://acme.test/order'', RevokeCert = ''https://acme.test/revoke'',
     KeyChange = ''https://acme.test/key''\<rparr>"

definition sampleClient :: Client where
  "sampleClient = \<lparr>Nonce = ''n0'', KID = [], Key = Some (EcdsaKey ''P-256'' 1 2 3),
     Directory = sampleDirectory, DNS = Some sampleDNS, CertsManager = None, OrderURL = [],
     ContactEmails = [''mailto:a@example.org''], Finalize = [], CertKey = None, Logger = None\<rparr>"

definition sampleHeader :: "string \<Rightarrow> string list" where
  "sampleHeader k =
     (if k = ''Replay-Nonce'' then [''n1'']
      else if k = ''Location'' then [''https://acme.test/acct/1''] else [])"

definition sampleEnv :: "string env" where
  "sampleEnv = \<lparr>GetNonce = (\<lambda>u. (''n0'', None)),
     envJWSEncodeJSON = (\<lambda>c claimset u postAsGet. ((''jws'', None), c)),
     envTransport = \<lparr>urlError = (\<lambda>u. None),
       Do = (\<lambda>req. Inr \<lparr>StatusCode = 201, Header = sampleHeader, Body = (''{}'', None)\<rparr>)\<rparr>,
     CertApply = (\<lambda>c domains. ((\<lparr>Authorizations = [''https://acme.test/authz/1'']\<rparr>, None), c)),
     FetchChallenges = (\<lambda>c u. ((\<lparr>Challenges =
        [\<lparr>Type = ''http-01'', Token = ''xyz789'', URL = ''https://acme.test/chall/1'',
          Status = ''pending''\<rparr>,
         \<lparr>Type = ''dns-01'', Token = ''abc123'', URL = ''https://acme.test/chall/2'',
          Status = ''pending''\<rparr>]\<rparr>, None), c)),
     ChallengeReady = (\<lambda>c u. (if u = [] then Some (Error ''unsupported protocol scheme'') else None, c)),
     PollForStatus = (\<lambda>c domain. (Some (Error ''order is invalid''), c)),
     sha256 = (\<lambda>b. b),
     Thumbprint = (\<lambda>k. (''t'', None))\<rparr>"

text \<open>The same server offering an \<^verbatim>\<open>http-01\<close> challenge only.\<close>

definition sampleEnvHTTP01 :: "string env" where
  "sampleEnvHTTP01 = sampleEnv\<lparr>FetchChallenges := (\<lambda>c u. ((\<lparr>Challenges =
        [\<lparr>Type = ''http-01'', Token = ''xyz789'', URL = ''https://acme.test/chall/1'',
          Status = ''pending''\<rparr>]\<rparr>, None), c))\<rparr>"

text \<open>A DNS collaborator that refuses to add records.\<close>

definition failingDNS :: DNSModifier where
  "failingDNS = \<lparr>AddTextRecord = (\<lambda>domain token. Some (Error ''access denied'')),
     RemoveTextRecord = (\<lambda>domain token. None)\<rparr>"

text \<open>
  A thumbprint function for the evaluations: as the JOSE library does, it
  gives a thumbprint for the curves P-256, P-384 and P-521 and an error for
  any other curve.  The thumbprint here is the curve name followed by one
  byte for each coordinate; the library hashes the canonical JSON of the
  public key.  (On a nil key the library panics; the sample gives an error.)
\<close>

definition sampleThumbprint :: "ecdsaKey option \<Rightarrow> string \<times> error option" where
  "sampleThumbprint key =
     (case key of
        None \<Rightarrow> ([], Some (Error ''invalid key''))
      | Some (EcdsaKey curve x y d) \<Rightarrow>
          if curve = ''P-256'' \<or> curve = ''P-384'' \<or> curve = ''P-521''
          then (curve @ [char_of x, char_of y], None)
          else ([], Some (Error ''square/go-jose: unsupported/unknown elliptic curve'')))"






section \<open>Properties\<close>

subsection \<open>Contact normalisation\<close>

lemma HasPrefix_append: "HasPrefix (p @ s) p"
  by (simp add: HasPrefix_def)

lemma HasPrefix_normContact: "HasPrefix (normContact t s) ''mailto:''"
  unfolding normContact_def using HasPrefix_append [of "''mailto:''"] by simp

lemma normContact_idem: "normContact t (normContact t s) = normContact t s"
  using HasPrefix_normContact [of t s] by (simp add: normContact_def)

lemma prependLoop:
  "n \<le> length c \<Longrightarrow> length z = length c \<Longrightarrow>
   fold (prependStep t) [0..<n] (c, z) =
     (map (normContact t) (take n c) @ drop n c, map (normContact t) (take n c) @ drop n z)"
proof (induction n)
  case 0
  then show ?case by simp
next
  case (Suc n)
  let ?m = "map (normContact t) (take n c)"
  from Suc.prems have n: "n < length c" "n < length z" by simp_all
  have len: "length ?m = n" using n by simp
  have at: "(?m @ drop n c) ! n = c ! n"
    using n len by (simp add: nth_append)
  have upd: "\<And>(ys::string list) v. n < length ys \<Longrightarrow>
      (?m @ drop n ys)[n := v] = (?m @ [v]) @ drop (Suc n) ys"
  proof -
    fix ys :: "string list" and v
    assume "n < length ys"
    then have "drop n ys = ys ! n # drop (Suc n) ys"
      by (simp add: Cons_nth_drop_Suc)
    then show "(?m @ drop n ys)[n := v] = (?m @ [v]) @ drop (Suc n) ys"
      using len by (simp add: list_update_append)
  qed
  have tk: "map (normContact t) (take (Suc n) c) = ?m @ [normContact t (c ! n)]"
    using n by (simp add: take_Suc_conv_app_nth)
  have same: "?m @ drop n c = (?m @ [c ! n]) @ drop (Suc n) c"
    using n by (simp add: Cons_nth_drop_Suc)
  have "fold (prependStep t) [0..<Suc n] (c, z) =
      prependStep t n (?m @ drop n c, ?m @ drop n z)"
    using Suc by simp
  also have "\<dots> = (map (normContact t) (take (Suc n) c) @ drop (Suc n) c,
      map (normContact t) (take (Suc n) c) @ drop (Suc n) z)"
  proof (cases "HasPrefix (c ! n) ''mailto:''")
    case True
    then show ?thesis
      using n at upd [of z "c ! n"] tk same
      by (simp add: prependStep_def Let_def normContact_def)
  next
    case False
    then show ?thesis
      using n at upd [of z] upd [of c] tk len
      by (simp add: prependStep_def Let_def normContact_def nth_append)
  qed
  finally show ?case .
qed

lemma prependContacts_map:
  "prependContacts t c = (map (normContact t) c, map (normContact t) c)"
  unfolding prependContacts_def using prependLoop [of "length c" c "replicate (length c) []" t]
  by simp


text \<open>
  C9.  For every list of contacts, every entry of the list that
  \<^verbatim>\<open>prependContacts\<close> returns begins with \<^verbatim>\<open>mailto:\<close>, and
  \<^verbatim>\<open>prependContacts\<close> applied to its own result returns that result
  again.  This holds whatever \<^verbatim>\<open>strings.TrimSpace\<close> computes.
\<close>

theorem prependContacts_mailto_idempotent:
  "(\<forall>s \<in> set (snd (prependContacts t c)). HasPrefix s ''mailto:'') \<and>
   snd (prependContacts t (snd (prependContacts t c))) = snd (prependContacts t c)"
proof
  show "\<forall>s \<in> set (snd (prependContacts t c)). HasPrefix s ''mailto:''"
    by (auto simp: prependContacts_map HasPrefix_normContact)
next
  have "map (normContact t) (map (normContact t) c) = map (normContact t) c"
    by (simp add: normContact_idem)
  then show "snd (prependContacts t (snd (prependContacts t c))) = snd (prependContacts t c)"
    by (simp add: prependContacts_map)
qed

theorem prependContacts_mailto_idempotent_witness:
  "snd (prependContacts TrimSpaceASCII [''a@example.org '', ''mailto:b@example.org''])
     = [''mailto:a@example.org'', ''mailto:b@example.org''] \<and>
   HasPrefix ''mailto:a@example.org'' ''mailto:'' \<and>
   snd (prependContacts TrimSpaceASCII
         (snd (prependContacts TrimSpaceASCII [''a@example.org '', ''mailto:b@example.org'']))) =
   snd (prependContacts TrimSpaceASCII [''a@example.org '', ''mailto:b@example.org''])"
proof -
  have v: "snd (prependContacts TrimSpaceASCII [''a@example.org '', ''mailto:b@example.org''])
     = [''mailto:a@example.org'', ''mailto:b@example.org'']"
    by (simp add: prependContacts_map normContact_def HasPrefix_def TrimSpaceASCII_def
        isSpaceASCII_def)
  show ?thesis
    using prependContacts_mailto_idempotent
      [of TrimSpaceASCII "[''a@example.org '', ''mailto:b@example.org'']"] v
    by simp
qed

subsection \<open>The certificate store\<close>

text \<open>
  C7.  \<^verbatim>\<open>ASMCertStore.Retrieve\<close> returns the key PEM \<^verbatim>\<open>i_am\<close>, the
  certificate PEM \<^verbatim>\<open>fake\<close> and no error for every store and every
  domain, and so never the triple of two empty strings and no error.
\<close>

theorem Retrieve_returns_placeholder:
  "ASMCertStore_Retrieve store domain = (''i_am'', ''fake'', None) \<and>
   ASMCertStore_Retrieve store domain \<noteq> ([], [], None)"
  by (simp add: ASMCertStore_Retrieve_def)

subsection \<open>Creating a client\<close>

text \<open>
  C6.  When \<^verbatim>\<open>NewClient\<close> is called without an account key, the
  directory fetch succeeds and a key is generated, the call returns a client
  and no error, and the \<^verbatim>\<open>Key\<close> field of that client is
  \<^verbatim>\<open>nil\<close>: the generated key is not in it.
\<close>

theorem NewClient_drops_generated_key:
  assumes "AccountKey opts = None"
    and "queryDirectory get parse dirURL = (directory, None)"
    and "generated = Inr k"
  shows "\<exists>c. NewClient t get parse generated dirURL csr dm opts = Return (c, None) \<and>
             Key c = None \<and> Key c \<noteq> Some k"
  using assms by (simp add: NewClient_def Let_def)

theorem NewClient_drops_generated_key_witness:
  "AccountKey \<lparr>AccountKey = None, optCertKey = None, optContactEmails = [''a@example.org''],
       optLogger = None\<rparr> = None \<and>
   queryDirectory (\<lambda>u. Inr ''{}'') (\<lambda>j. (zeroDirectory, None)) ''https://acme/dir''
     = (zeroDirectory, None) \<and>
   (\<exists>c. NewClient TrimSpaceASCII (\<lambda>u. Inr ''{}'') (\<lambda>j. (zeroDirectory, None))
           (Inr (EcdsaKey ''P-256'' 1 2 3)) ''https://acme/dir'' None None
           \<lparr>AccountKey = None, optCertKey = None, optContactEmails = [''a@example.org''],
             optLogger = None\<rparr> = Return (c, None) \<and>
        Key c = None \<and> Key c \<noteq> Some (EcdsaKey ''P-256'' 1 2 3))"
proof -
  have a: "AccountKey \<lparr>AccountKey = None, optCertKey = None,
      optContactEmails = [''a@example.org''], optLogger = None\<rparr> = None"
    by simp
  have q: "queryDirectory (\<lambda>u. Inr ''{}'') (\<lambda>j. (zeroDirectory, None)) ''https://acme/dir''
     = (zeroDirectory, None)"
    by (simp add: queryDirectory_def)
  show ?thesis
    using a q NewClient_drops_generated_key [where t = TrimSpaceASCII
        and k = "EcdsaKey ''P-256'' 1 2 3" and csr = None and dm = None, OF a q refl]
    by simp
qed

subsection \<open>Key authorisation\<close>

text \<open>
  C5, as it holds of the code.  For every token and every account key for
  which the JOSE library computes the thumbprint without error,
  \<^verbatim>\<open>AcmeAuthHash\<close> returns the base64url encoding of the SHA-256 digest
  of the token, a dot and the base64url encoding of the thumbprint of that
  key, and no error.  The result is a function of the account key and the
  token alone: two clients with the same key give the same result for the same
  token, whatever their nonce, key id, directory or other fields.
\<close>

theorem AcmeAuthHash_derivation:
  "(tp (Key c) = (thumb, None) \<longrightarrow>
      AcmeAuthHash sha tp c token =
        (EncodeToString (sha (token @ ''.'' @ EncodeToString thumb)), None)) \<and>
   (Key c' = Key c \<longrightarrow> AcmeAuthHash sha tp c' token = AcmeAuthHash sha tp c token)"
  by (simp add: AcmeAuthHash_def acmeAuthString_def JWKThumbprint_def)

theorem AcmeAuthHash_derivation_witness:
  "sampleThumbprint (Key sampleClient) = (''P-256'' @ [CHR 0x01, CHR 0x02], None) \<and>
   AcmeAuthHash (\<lambda>b. b) sampleThumbprint sampleClient ''tok'' = (''dG9rLlVDMHlOVFlCQWc'', None) \<and>
   Key (sampleClient\<lparr>Nonce := ''n1'', KID := ''https://acme.test/acct/1''\<rparr>) = Key sampleClient \<and>
   AcmeAuthHash (\<lambda>b. b) sampleThumbprint
       (sampleClient\<lparr>Nonce := ''n1'', KID := ''https://acme.test/acct/1''\<rparr>) ''tok'' =
     AcmeAuthHash (\<lambda>b. b) sampleThumbprint sampleClient ''tok''"
proof -
  have t: "sampleThumbprint (Key sampleClient) = (''P-256'' @ [CHR 0x01, CHR 0x02], None)"
    by code_simp
  have e: "EncodeToString (''tok'' @ ''.'' @ EncodeToString (''P-256'' @ [CHR 0x01, CHR 0x02]))
      = ''dG9rLlVDMHlOVFlCQWc''"
    by code_simp
  show ?thesis
    using AcmeAuthHash_derivation [where tp = sampleThumbprint and c = sampleClient
        and thumb = "''P-256'' @ [CHR 0x01, CHR 0x02]" and sha = "\<lambda>b. b" and token = "''tok''"
        and c' = "sampleClient\<lparr>Nonce := ''n1'', KID := ''https://acme.test/acct/1''\<rparr>"] e t
    by simp
qed

text \<open>
  For an account key on the curve P-224 the thumbprint fails, and
  \<^verbatim>\<open>AcmeAuthHash\<close> returns that error and an empty string, not the
  derived value.
\<close>

theorem AcmeAuthHash_unsupported_curve_counterexample:
  "AcmeAuthHash (\<lambda>b. b) sampleThumbprint (sampleClient\<lparr>Key := Some (EcdsaKey ''P-224'' 1 2 3)\<rparr>) ''tok''
     = ([], Some (Error ''square/go-jose: unsupported/unknown elliptic curve''))"
  by code_simp

subsection \<open>The Route53 DNS modifier\<close>

lemma Split_nonempty: "Split s sep \<noteq> []"
  by (induction s) (auto split: list.splits)

text \<open>The pieces and the separators between them make up the string.\<close>

lemma Split_length:
  "sum_list (map length (Split s sep)) + length (Split s sep) = Suc (length s)"
  by (induction s) (auto split: list.splits simp: Split_nonempty)

lemma filter_sum_le:
  "sum_list (map length (filter P xs)) \<le> sum_list (map length xs)"
  by (induction xs) auto

lemma nonempty_sum_ge:
  "\<forall>x \<in> set xs. x \<noteq> [] \<Longrightarrow> length xs \<le> sum_list (map length xs)"
proof (induction xs)
  case Nil
  then show ?case by simp
next
  case (Cons x xs)
  then have "1 \<le> length x" by (cases x) auto
  with Cons show ?case by auto
qed

lemma labels_length:
  assumes "2 \<le> length (filter (\<lambda>t. t \<noteq> [] \<and> t \<noteq> ''*'') (Split s sep))"
  shows "3 \<le> length s"
proof -
  let ?h = "filter (\<lambda>t. t \<noteq> [] \<and> t \<noteq> ''*'') (Split s sep)"
  have a: "length ?h \<le> sum_list (map length ?h)"
    by (rule nonempty_sum_ge) simp
  have b: "sum_list (map length ?h) \<le> sum_list (map length (Split s sep))"
    by (rule filter_sum_le)
  have c: "length ?h \<le> length (Split s sep)"
    by simp
  show ?thesis
    using assms a b c Split_length [of s sep] by linarith
qed

lemma splitHostname_ok:
  "snd (snd (splitHostname domain)) = None \<longleftrightarrow>
     2 \<le> length (filter (\<lambda>t. t \<noteq> [] \<and> t \<noteq> ''*'') (Split domain CHR ''.''))"
  by (simp add: splitHostname_def Let_def)

lemma findHostedZoneID_ok:
  "snd (findHostedZoneID r domain) = None \<Longrightarrow> snd (snd (splitHostname domain)) = None"
  by (auto simp: findHostedZoneID_def split: prod.splits option.splits sum.splits if_splits)

lemma findHostedZoneID_length:
  "snd (findHostedZoneID r domain) = None \<Longrightarrow> 2 \<le> length domain"
proof -
  assume "snd (findHostedZoneID r domain) = None"
  then have "3 \<le> length domain"
    using findHostedZoneID_ok [of r domain] splitHostname_ok [of domain] labels_length by blast
  then show ?thesis by simp
qed

lemma createChangeRecordSetInput_in_bounds:
  "2 \<le> length domain \<Longrightarrow>
   createChangeRecordSetInput rune zid domain token action =
     Return (\<lparr>ChangeBatch = \<lparr>Changes =
               [\<lparr>Action = action,
                 ResourceRecordSet =
                   \<lparr>Name = ''_acme-challenge.'' @
                      (if take 2 domain = ''*.'' then drop 2 domain else domain),
                    ResourceRecords = [\<lparr>Value = Sprintf_q rune token\<rparr>],
                    TTL = 20,
                    RRType = ''TXT''\<rparr>\<rparr>],
               Comment = ''Text record for letsencrypt''\<rparr>,
             HostedZoneId = zid\<rparr>, None)"
  by (simp add: createChangeRecordSetInput_def Let_def)

lemma AddTextRecord_no_panic: "fst (Route53_AddTextRecord rune r domain token) \<noteq> Panic"
proof (cases "snd (findHostedZoneID r domain)")
  case None
  from createChangeRecordSetInput_in_bounds [OF findHostedZoneID_length [OF None]] None
  show ?thesis
    by (auto simp: Route53_AddTextRecord_def split: prod.splits option.splits)
next
  case (Some e)
  then show ?thesis
    by (auto simp: Route53_AddTextRecord_def split: prod.splits option.splits)
qed

lemma RemoveTextRecord_no_panic: "fst (Route53_RemoveTextRecord rune r domain token) \<noteq> Panic"
proof (cases "snd (findHostedZoneID r domain)")
  case None
  from createChangeRecordSetInput_in_bounds [OF findHostedZoneID_length [OF None]] None
  show ?thesis
    by (auto simp: Route53_RemoveTextRecord_def split: prod.splits option.splits)
next
  case (Some e)
  then show ?thesis
    by (auto simp: Route53_RemoveTextRecord_def split: prod.splits option.splits)
qed

lemma appendQuoted_plain: "\<forall>c \<in> set s. plainChar c \<Longrightarrow> appendQuoted rune s = s"
  by (induction s) (auto simp: plainChar_def)

lemma sample_zone: "findHostedZoneID sampleRoute53 ''*.example.org'' = (''Z1'', None)"
  by (simp add: findHostedZoneID_def splitHostname_def sampleRoute53_def Let_def)

text \<open>
  C10.  \<^verbatim>\<open>createChangeRecordSetInput\<close> panics on a domain of fewer than
  two bytes.  When \<^verbatim>\<open>splitHostname\<close> returns no error, the domain has
  at least two labels between dots that are neither empty nor \<^verbatim>\<open>*\<close>,
  and so at least two bytes; \<^verbatim>\<open>findHostedZoneID\<close> returns no error only
  when \<^verbatim>\<open>splitHostname\<close> did.  Hence neither
  \<^verbatim>\<open>Route53.AddTextRecord\<close> nor \<^verbatim>\<open>Route53.RemoveTextRecord\<close>
  panics, for any domain, token and answers of the AWS client.
\<close>

theorem Route53_slice_in_bounds:
  "(length short < 2 \<longrightarrow> createChangeRecordSetInput rune zid short token action = Panic) \<and>
   (snd (snd (splitHostname domain)) = None \<longrightarrow>
      2 \<le> length (filter (\<lambda>t. t \<noteq> [] \<and> t \<noteq> ''*'') (Split domain CHR ''.'')) \<and>
      2 \<le> length domain) \<and>
   (snd (findHostedZoneID r domain) = None \<longrightarrow> snd (snd (splitHostname domain)) = None) \<and>
   fst (Route53_AddTextRecord rune r domain token) \<noteq> Panic \<and>
   fst (Route53_RemoveTextRecord rune r domain token) \<noteq> Panic"
proof (intro conjI impI)
  assume "length short < 2"
  then show "createChangeRecordSetInput rune zid short token action = Panic"
    by (simp add: createChangeRecordSetInput_def)
next
  assume "snd (snd (splitHostname domain)) = None"
  then show "2 \<le> length (filter (\<lambda>t. t \<noteq> [] \<and> t \<noteq> ''*'') (Split domain CHR ''.''))"
    by (simp add: splitHostname_ok)
next
  assume "snd (snd (splitHostname domain)) = None"
  then have "3 \<le> length domain"
    using splitHostname_ok [of domain] labels_length by blast
  then show "2 \<le> length domain" by simp
next
  assume "snd (findHostedZoneID r domain) = None"
  then show "snd (snd (splitHostname domain)) = None"
    by (rule findHostedZoneID_ok)
next
  show "fst (Route53_AddTextRecord rune r domain token) \<noteq> Panic"
    by (rule AddTextRecord_no_panic)
next
  show "fst (Route53_RemoveTextRecord rune r domain token) \<noteq> Panic"
    by (rule RemoveTextRecord_no_panic)
qed

theorem Route53_slice_in_bounds_witness:
  "length ''x'' < 2 \<and>
   createChangeRecordSetInput (\<lambda>s. (1, [])) ''Z1'' ''x'' ''abc'' ''UPSERT'' = Panic \<and>
   snd (snd (splitHostname ''*.example.org'')) = None \<and>
   2 \<le> length (filter (\<lambda>t. t \<noteq> [] \<and> t \<noteq> ''*'') (Split ''*.example.org'' CHR ''.'')) \<and>
   snd (findHostedZoneID sampleRoute53 ''*.example.org'') = None \<and>
   fst (Route53_AddTextRecord (\<lambda>s. (1, [])) sampleRoute53 ''*.example.org'' ''abc'') \<noteq> Panic \<and>
   fst (Route53_RemoveTextRecord (\<lambda>s. (1, [])) sampleRoute53 ''*.example.org'' ''abc'') \<noteq> Panic"
proof -
  have a: "length ''x'' < 2" by simp
  have b: "snd (findHostedZoneID sampleRoute53 ''*.example.org'') = None"
    by (simp add: sample_zone)
  show ?thesis
    using a b Route53_slice_in_bounds [where short = "''x''" and domain = "''*.example.org''"
        and r = sampleRoute53 and rune = "\<lambda>s. (1, [])" and zid = "''Z1''" and token = "''abc''"
        and action = "''UPSERT''"]
    by simp
qed

text \<open>
  C8, as it holds of the code.  When the hosted zone of the domain is found,
  \<^verbatim>\<open>Route53.AddTextRecord\<close> hands exactly one input to
  \<open>ChangeResourceRecordSets\<close>; its batch has exactly one change, an
  \<^verbatim>\<open>UPSERT\<close> of a \<^verbatim>\<open>TXT\<close> record set named
  \<^verbatim>\<open>_acme-challenge.\<close> followed by the domain without a leading
  \<^verbatim>\<open>*.\<close>, with exactly one record, whose value is the token, written
  as the quoted string that Route53 takes for the value of a TXT record
  (\<^verbatim>\<open>%q\<close>): for a token of printable ASCII bytes other than the double
  quote and the backslash, the token between two double quotes.
\<close>

theorem AddTextRecord_change_batch:
  assumes "snd (findHostedZoneID r domain) = None"
  shows "snd (Route53_AddTextRecord rune r domain token) =
      [\<lparr>ChangeBatch = \<lparr>Changes =
          [\<lparr>Action = ''UPSERT'',
            ResourceRecordSet =
              \<lparr>Name = ''_acme-challenge.'' @
                 (if take 2 domain = ''*.'' then drop 2 domain else domain),
               ResourceRecords = [\<lparr>Value = Sprintf_q rune token\<rparr>],
               TTL = 20,
               RRType = ''TXT''\<rparr>\<rparr>],
          Comment = ''Text record for letsencrypt''\<rparr>,
        HostedZoneId = fst (findHostedZoneID r domain)\<rparr>] \<and>
    ((\<forall>ch \<in> set token. plainChar ch) \<longrightarrow> Sprintf_q rune token = CHR 0x22 # token @ [CHR 0x22])"
proof
  from createChangeRecordSetInput_in_bounds [OF findHostedZoneID_length [OF assms]] assms
  show "snd (Route53_AddTextRecord rune r domain token) =
      [\<lparr>ChangeBatch = \<lparr>Changes =
          [\<lparr>Action = ''UPSERT'',
            ResourceRecordSet =
              \<lparr>Name = ''_acme-challenge.'' @
                 (if take 2 domain = ''*.'' then drop 2 domain else domain),
               ResourceRecords = [\<lparr>Value = Sprintf_q rune token\<rparr>],
               TTL = 20,
               RRType = ''TXT''\<rparr>\<rparr>],
          Comment = ''Text record for letsencrypt''\<rparr>,
        HostedZoneId = fst (findHostedZoneID r domain)\<rparr>]"
    by (auto simp: Route53_AddTextRecord_def split: prod.splits option.splits)
next
  show "(\<forall>ch \<in> set token. plainChar ch) \<longrightarrow> Sprintf_q rune token = CHR 0x22 # token @ [CHR 0x22]"
    by (simp add: Sprintf_q_def appendQuoted_plain)
qed

theorem AddTextRecord_change_batch_witness:
  "snd (findHostedZoneID sampleRoute53 ''*.example.org'') = None \<and>
   snd (Route53_AddTextRecord (\<lambda>s. (1, [])) sampleRoute53 ''*.example.org'' ''abc'') =
      [\<lparr>ChangeBatch = \<lparr>Changes =
          [\<lparr>Action = ''UPSERT'',
            ResourceRecordSet =
              \<lparr>Name = ''_acme-challenge.example.org'',
               ResourceRecords = [\<lparr>Value = [CHR 0x22, CHR ''a'', CHR ''b'', CHR ''c'', CHR 0x22]\<rparr>],
               TTL = 20,
               RRType = ''TXT''\<rparr>\<rparr>],
          Comment = ''Text record for letsencrypt''\<rparr>,
        HostedZoneId = ''Z1''\<rparr>]"
proof -
  have b: "snd (findHostedZoneID sampleRoute53 ''*.example.org'') = None"
    by (simp add: sample_zone)
  have p: "\<forall>ch \<in> set ''abc''. plainChar ch"
    by (simp add: plainChar_def)
  show ?thesis
    using b p AddTextRecord_change_batch [OF b, where rune = "\<lambda>s. (1, [])" and token = "''abc''"]
    by (simp add: sample_zone)
qed

text \<open>
  For the domain \<^verbatim>\<open>com\<close> the lookup of the hosted zone fails, and
  \<^verbatim>\<open>AddTextRecord\<close> returns that error without building a change batch.
\<close>

theorem AddTextRecord_no_batch_counterexample:
  "Route53_AddTextRecord (\<lambda>s. (1, [])) sampleRoute53 ''com'' ''abc'' =
     (Return (Some (Error ''com is basically a great big TLD'')), [])"
  by (simp add: Route53_AddTextRecord_def findHostedZoneID_def splitHostname_def Let_def)

subsection \<open>Signed requests and the nonce\<close>






lemma subseq_filter_drop:
  "\<not> P a \<Longrightarrow> subseq xs (filter P (a # ys)) \<Longrightarrow> subseq xs (filter P ys)"
  by simp










text \<open>
  C2, as it holds of the code.  After a call of \<^verbatim>\<open>makeRequest\<close> that gets a response
  and reads its body to the end, the call returns the body and no error, and
  the nonce the client holds is the value of the \<^verbatim>\<open>Replay-Nonce\<close>
  header of that response (its first value, when the header is present),
  whatever the status code of the response.
\<close>

theorem makeRequest_replaces_nonce:
  assumes "jws c claimset url postAsGet = ((token, None), c0)"
    and "urlError tr url = None"
    and "Do tr \<lparr>reqMethod = ''POST'', reqURL = url, reqBody = token,
            reqContentType = ''application/jose+json''\<rparr> = Inr res"
    and "Body res = (b, None)"
  shows "fst (makeRequest jws tr c claimset url postAsGet) = (b, None) \<and>
     Nonce (fst (snd (makeRequest jws tr c claimset url postAsGet))) =
       Header_Get (Header res) ''Replay-Nonce'' \<and>
     (\<forall>v vs. Header res ''Replay-Nonce'' = v # vs \<longrightarrow>
        Nonce (fst (snd (makeRequest jws tr c claimset url postAsGet))) = v)"
  using assms by (auto simp: makeRequest_def Let_def Header_Get_def)

theorem makeRequest_replaces_nonce_witness:
  "sampleHeader ''Replay-Nonce'' = [''n1''] \<and>
   StatusCode \<lparr>StatusCode = 400, Header = sampleHeader, Body = (''{}'', None)\<rparr> = 400 \<and>
   Nonce sampleClient = ''n0'' \<and>
   Nonce (fst (snd (makeRequest (\<lambda>c claimset u postAsGet. ((''jws'', None), c))
     \<lparr>urlError = (\<lambda>u. None),
       Do = (\<lambda>req. Inr \<lparr>StatusCode = 400, Header = sampleHeader, Body = (''{}'', None)\<rparr>)\<rparr>
     sampleClient ''{}'' ''https://acme.test/order'' False))) = ''n1''"
proof -
  have h: "sampleHeader ''Replay-Nonce'' = [''n1'']"
    by (simp add: sampleHeader_def)
  have n: "Nonce sampleClient = ''n0''"
    by (simp add: sampleClient_def)
  show ?thesis
    using h n makeRequest_replaces_nonce [where jws = "\<lambda>c claimset u postAsGet. ((''jws'', None), c)"
        and ?c0.0 = sampleClient
        and c = sampleClient and claimset = "''{}''" and url = "''https://acme.test/order''"
        and postAsGet = False and token = "''jws''"
        and tr = "\<lparr>urlError = (\<lambda>u. None),
          Do = (\<lambda>req. Inr \<lparr>StatusCode = 400, Header = sampleHeader, Body = (''{}'', None)\<rparr>)\<rparr>"
        and res = "\<lparr>StatusCode = 400, Header = sampleHeader, Body = (''{}'', None)\<rparr>"
        and b = "''{}''"]
    by (simp add: Header_Get_def)
qed

text \<open>
  A response that carries \<^verbatim>\<open>Replay-Nonce: n1\<close> but whose body cannot be
  read to its end leaves the client with its old nonce \<^verbatim>\<open>n0\<close> when the
  signer leaves the nonce in place, and without a nonce when the signer takes
  it; with \<^verbatim>\<open>n1\<close> in neither case.
\<close>

theorem makeRequest_nonce_kept_counterexample:
  "Header_Get sampleHeader ''Replay-Nonce'' = ''n1'' \<and>
   Nonce (fst (snd (makeRequest (\<lambda>c claimset u postAsGet. ((''jws'', None), c))
     \<lparr>urlError = (\<lambda>u. None),
       Do = (\<lambda>req. Inr \<lparr>StatusCode = 400, Header = sampleHeader,
                         Body = (''{'', Some (Error ''unexpected EOF''))\<rparr>)\<rparr>
     sampleClient ''{}'' ''https://acme.test/order'' False))) = ''n0'' \<and>
   Nonce (fst (snd (makeRequest (\<lambda>c claimset u postAsGet. ((''jws'', None), c\<lparr>Nonce := []\<rparr>))
     \<lparr>urlError = (\<lambda>u. None),
       Do = (\<lambda>req. Inr \<lparr>StatusCode = 400, Header = sampleHeader,
                         Body = (''{'', Some (Error ''unexpected EOF''))\<rparr>)\<rparr>
     sampleClient ''{}'' ''https://acme.test/order'' False))) = []"
  by code_simp

subsection \<open>Fetching a certificate\<close>

text \<open>
  C4, as it holds of the code.  In every run of \<^verbatim>\<open>FetchOrRenewCert\<close> in which
  \<^verbatim>\<open>AddTextRecord\<close> is called and returns no error, and at whose end the
  client still holds a DNS collaborator, the calls to the collaborator are
  exactly that \<^verbatim>\<open>AddTextRecord\<close> followed by one
  \<^verbatim>\<open>RemoveTextRecord\<close> with the same domain and key-authorization hash,
  whether \<^verbatim>\<open>ChallengeReady\<close> and \<^verbatim>\<open>PollForStatus\<close> return an
  error or not.
\<close>

theorem FetchOrRenewCert_cleanup:
  assumes "FetchOrRenewCert env c domain = (r, c', evs)"
    and "AddTextRecordCall d h None \<in> set evs"
    and "DNS c' \<noteq> None"
  shows "d = domain \<and>
    (\<exists>res. evs = [AddTextRecordCall domain h None, RemoveTextRecordCall domain h res])"
  using assms
  by (auto simp: FetchOrRenewCert_def Let_def removeDeferred_def
      split: if_splits prod.splits option.splits list.splits)

lemma sample_run:
  "FetchOrRenewCert sampleEnv sampleClient ''example.org'' =
     (Return (Some (Error ''order is invalid'')),
      fst (snd (FetchOrRenewCert sampleEnv sampleClient ''example.org'')),
      [AddTextRecordCall ''example.org'' ''YWJjMTIzLmRB'' None,
       RemoveTextRecordCall ''example.org'' ''YWJjMTIzLmRB'' None])"
proof -
  have "fst (FetchOrRenewCert sampleEnv sampleClient ''example.org'') =
      Return (Some (Error ''order is invalid''))"
    by code_simp
  moreover have "snd (snd (FetchOrRenewCert sampleEnv sampleClient ''example.org'')) =
      [AddTextRecordCall ''example.org'' ''YWJjMTIzLmRB'' None,
       RemoveTextRecordCall ''example.org'' ''YWJjMTIzLmRB'' None]"
    by code_simp
  ultimately show ?thesis
    by (metis prod.collapse)
qed

lemma sample_run_DNS:
  "DNS (fst (snd (FetchOrRenewCert sampleEnv sampleClient ''example.org''))) \<noteq> None"
  by code_simp

theorem FetchOrRenewCert_cleanup_witness:
  "fst (FetchOrRenewCert sampleEnv sampleClient ''example.org'') =
     Return (Some (Error ''order is invalid'')) \<and>
   AddTextRecordCall ''example.org'' ''YWJjMTIzLmRB'' None
     \<in> set (snd (snd (FetchOrRenewCert sampleEnv sampleClient ''example.org''))) \<and>
   DNS (fst (snd (FetchOrRenewCert sampleEnv sampleClient ''example.org''))) \<noteq> None \<and>
   (\<exists>res. snd (snd (FetchOrRenewCert sampleEnv sampleClient ''example.org'')) =
      [AddTextRecordCall ''example.org'' ''YWJjMTIzLmRB'' None,
       RemoveTextRecordCall ''example.org'' ''YWJjMTIzLmRB'' res])"
proof -
  have m: "AddTextRecordCall ''example.org'' ''YWJjMTIzLmRB'' None
      \<in> set [AddTextRecordCall ''example.org'' ''YWJjMTIzLmRB'' None,
         RemoveTextRecordCall ''example.org'' ''YWJjMTIzLmRB'' None]"
    by simp
  from FetchOrRenewCert_cleanup [OF sample_run m sample_run_DNS] sample_run sample_run_DNS
  show ?thesis
    by (metis fst_conv snd_conv list.set_intros(1))
qed

text \<open>
  A run in which \<^verbatim>\<open>AddTextRecord\<close> is called and returns an error: the
  process ends there and \<^verbatim>\<open>RemoveTextRecord\<close> is not called.
\<close>

theorem FetchOrRenewCert_failed_add_counterexample:
  "fst (FetchOrRenewCert sampleEnv (sampleClient\<lparr>DNS := Some failingDNS\<rparr>) ''example.org'') = Exit \<and>
   snd (snd (FetchOrRenewCert sampleEnv (sampleClient\<lparr>DNS := Some failingDNS\<rparr>) ''example.org''))
    = [AddTextRecordCall ''example.org'' ''YWJjMTIzLmRB'' (Some (Error ''access denied''))]"
  by code_simp

text \<open>
  C3.  With a server that offers an \<^verbatim>\<open>http-01\<close> challenge only,
  \<^verbatim>\<open>FetchOrRenewCert\<close> goes on with the zero challenge: it calls
  \<^verbatim>\<open>AddTextRecord\<close> with the hash for the empty token, posts to the empty
  challenge URL, and calls \<^verbatim>\<open>RemoveTextRecord\<close>; the error it returns is
  the one of that post.
\<close>

theorem FetchOrRenewCert_without_dns01:
  "fst (FetchOrRenewCert sampleEnvHTTP01 sampleClient ''example.org'') =
     Return (Some (Error ''unsupported protocol scheme'')) \<and>
   snd (snd (FetchOrRenewCert sampleEnvHTTP01 sampleClient ''example.org'')) =
     [AddTextRecordCall ''example.org'' ''LmRB'' None,
      RemoveTextRecordCall ''example.org'' ''LmRB'' None]"
  by code_simp

end
